theory Spec2Isabelle
  imports Complex_Main "HOL-Library.Log_Nat"
begin

unbundle bit_operations_syntax

section \<open>Data model of \<open>motion_planning.py\<close>\<close>

text \<open>
  The flight phases of the class \<open>States\<close>, in the order of the source. The floats of
  telemetry, targets and waypoints are modelled as reals; the sums and differences of the
  coordinate conversion are rounded to binary64, since \<open>int\<close> truncates their result.
  Python's \<open>int(x)\<close> on a float truncates towards zero.
\<close>

datatype States = MANUAL | ARMING | TAKEOFF | WAYPOINT | LANDING | DISARMING | PLANNING

type_synonym vec3 = "real \<times> real \<times> real"

fun idx0 :: "vec3 \<Rightarrow> real" where "idx0 (a, b, c) = a"
fun idx1 :: "vec3 \<Rightarrow> real" where "idx1 (a, b, c) = b"
fun idx2 :: "vec3 \<Rightarrow> real" where "idx2 (a, b, c) = c"

text \<open>
  A waypoint is the four-element list \<open>[north, east, altitude, orientation]\<close> that
  \<open>path_to_waypoints\<close> appends. \<open>target_position\<close> starts as the three-element array
  \<open>[0.0, 0.0, 0.0]\<close> (no fourth component) and later holds a popped waypoint.
\<close>

record waypoint =
  north :: real
  east :: real
  alt :: real
  heading :: real

record target =
  tn :: real
  te :: real
  ta :: real
  th :: "real option"

definition target_of :: "waypoint \<Rightarrow> target" where
  "target_of w = \<lparr>tn = north w, te = east w, ta = alt w, th = Some (heading w)\<rparr>"

text \<open>
  The fields of \<open>MotionPlanning\<close> that the callbacks and \<open>plan_path\<close> read or write.
  \<open>north_offset\<close>, \<open>east_offset\<close> and \<open>path\<close> are \<open>None\<close> until planning assigns them.
  The fields \<open>check_state\<close>, \<open>interactive_goal\<close>, \<open>temporary_scatter\<close>,
  \<open>previous_location\<close> and \<open>map_grid\<close> only feed the plotting and search functions of
  \<open>planning_utils\<close> and are not part of the record.
\<close>

record mission =
  target_position :: target
  waypoints :: "waypoint list"
  in_mission :: bool
  north_offset :: "real option"
  east_offset :: "real option"
  path :: "vec3 list option"
  flight_state :: States

text \<open>The attributes of the base class \<open>Drone\<close> that the callbacks read.\<close>

record telemetry =
  local_position :: vec3
  local_velocity :: vec3
  global_position :: vec3
  global_home :: vec3
  armed :: bool
  guided :: bool

text \<open>The calls a callback makes on the vehicle interface, in the order it makes them.\<close>

datatype command =
    Arm
  | TakeControl
  | Takeoff real
  | CmdPosition real real real real
  | Land
  | Disarm
  | ReleaseControl
  | Stop
  | SetHomePosition real real real
  | SendWaypoints "waypoint list"

text \<open>
  Modelled from the spec: the failure kinds of the planning pipeline, whose functions
  (\<open>create_grid\<close>, \<open>a_star\<close>, \<open>path_prune\<close>, \<open>path_simplify\<close> of \<open>planning_utils\<close>) are
  imported by \<open>motion_planning.py\<close> but defined elsewhere.
\<close>

datatype plan_error = MalformedObstacleData | PathNotFound

text \<open>
  What those functions and the file \<open>colliders.csv\<close> give to \<open>plan_path\<close> is an input:
  the parsed header \<open>(lat, lon)\<close>, the offsets \<open>(north_offset, east_offset)\<close> of
  \<open>create_grid\<close>, and the path that comes out of \<open>a_star\<close>, \<open>path_prune\<close> and
  \<open>path_simplify\<close>. Each stage either returns or raises.
\<close>

record planning =
  header :: "plan_error + (real \<times> real)"
  obstacles :: "plan_error + (real \<times> real)"
  search :: "plan_error + vec3 list"

datatype py_error = IndexError | PlanningFailed plan_error

text \<open>
  What a callback leaves behind: the mission fields as mutated so far, the commands issued
  so far, and the exception that ended it, if any.
\<close>

record outcome =
  st :: mission
  cmds :: "command list"
  raised :: "py_error option"

definition returns :: "mission \<Rightarrow> command list \<Rightarrow> outcome" where
  "returns s cs = \<lparr>st = s, cmds = cs, raised = None\<rparr>"

definition raises :: "mission \<Rightarrow> command list \<Rightarrow> py_error \<Rightarrow> outcome" where
  "raises s cs e = \<lparr>st = s, cmds = cs, raised = Some e\<rparr>"

section \<open>Numeric helpers\<close>

definition TARGET_ALTITUDE :: real where
  "TARGET_ALTITUDE = 5"

text \<open>\<open>np.linalg.norm\<close> of a two-element slice.\<close>

definition norm2 :: "real \<Rightarrow> real \<Rightarrow> real" where
  "norm2 x y = sqrt (x\<^sup>2 + y\<^sup>2)"

text \<open>Python's \<open>int\<close> on a float: truncation towards zero.\<close>

definition py_int :: "real \<Rightarrow> int" where
  "py_int x = (if 0 \<le> x then \<lfloor>x\<rfloor> else \<lceil>x\<rceil>)"

text \<open>
  Binary64 arithmetic: a float has a significand of 53 bits, and the result of \<open>+\<close> or
  \<open>-\<close> is the exact result rounded to the nearest float, a tie going to the even
  significand. \<open>binade x\<close> is the exponent \<open>e\<close> with \<open>2^e \<le> |x| < 2^(e+1)\<close>, and the
  floats of that binade are the multiples of \<open>2^(e-52)\<close>. The exponent range is not
  bounded here: the model is exact for magnitudes between \<open>2^-1022\<close> and \<open>2^1024\<close>. A
  Python \<open>int\<close> operand below \<open>2^53\<close> in magnitude converts to a float exactly, and
  \<open>int + int\<close> of such operands agrees with the rounded sum.
\<close>

definition pow2 :: "int \<Rightarrow> real" where
  "pow2 k = (if 0 \<le> k then 2 ^ nat k else 1 / 2 ^ nat (- k))"

definition binade :: "real \<Rightarrow> int" where
  "binade x =
     (if 1 \<le> \<bar>x\<bar> then bitlen \<lfloor>\<bar>x\<bar>\<rfloor> - 1 else - bitlen (\<lceil>1 / \<bar>x\<bar>\<rceil> - 1))"

definition round_half_even :: "real \<Rightarrow> int" where
  "round_half_even x =
     (let f = \<lfloor>x\<rfloor>; d = x - of_int f
      in if d < 1 / 2 then f
         else if 1 / 2 < d then f + 1
         else if even f then f else f + 1)"

definition round64 :: "real \<Rightarrow> real" where
  "round64 x =
     (if x = 0 then 0
      else (let u = pow2 (binade x - 52) in u * of_int (round_half_even (x / u))))"

definition float_add :: "real \<Rightarrow> real \<Rightarrow> real" where
  "float_add x y = round64 (x + y)"

definition float_sub :: "real \<Rightarrow> real \<Rightarrow> real" where
  "float_sub x y = round64 (x - y)"

text \<open>
  Python's \<open>~\<close> on a \<open>bool\<close> is the bitwise complement of the integer 0 or 1, and \<open>&\<close>
  is the bitwise conjunction of integers; an integer is true when it is not zero.
\<close>

definition py_invert :: "bool \<Rightarrow> int" where
  "py_invert b = NOT (of_bool b)"

definition truthy :: "int \<Rightarrow> bool" where
  "truthy k = (k \<noteq> 0)"

text \<open>
  \<open>np.arctan2 y x\<close>: the angle of the point \<open>(x, y)\<close> in the interval from \<open>-pi\<close> to
  \<open>pi\<close>, by quadrant.
\<close>

definition arctan2 :: "real \<Rightarrow> real \<Rightarrow> real" where
  "arctan2 y x =
     (if 0 < x then arctan (y / x)
      else if x < 0 then (if 0 \<le> y then arctan (y / x) + pi else arctan (y / x) - pi)
      else if 0 < y then pi / 2
      else if y < 0 then - (pi / 2)
      else 0)"

section \<open>Coordinate conversion\<close>

definition grid_to_local :: "real \<Rightarrow> real \<Rightarrow> vec3 \<Rightarrow> vec3" where
  "grid_to_local n_off e_off grid_coord =
     (let lat = float_add (idx0 grid_coord) n_off;
          lon = float_add (idx1 grid_coord) e_off
      in (lat, lon, - idx2 grid_coord))"

definition local_to_grid :: "real \<Rightarrow> real \<Rightarrow> vec3 \<Rightarrow> int \<times> int \<times> int" where
  "local_to_grid n_off e_off position =
     (let north = py_int (float_sub (idx0 position) n_off);
          east = py_int (float_sub (idx1 position) e_off);
          alt = py_int (- idx2 position)
      in (north, east, alt))"

definition cell :: "int \<times> int \<times> int \<Rightarrow> vec3" where
  "cell c = (case c of (n, e, a) \<Rightarrow> (real_of_int n, real_of_int e, real_of_int a))"

section \<open>Waypoint generation\<close>

text \<open>
  The loop \<open>for i in range(len(path))\<close> of \<open>path_to_waypoints\<close>, with the list built so
  far as accumulator.
\<close>

function waypoints_from :: "real \<Rightarrow> real \<Rightarrow> vec3 list \<Rightarrow> nat \<Rightarrow> waypoint list \<Rightarrow> waypoint list" where
  "waypoints_from n_off e_off pth i wps =
     (if i < length pth then
        (let p = pth ! i;
             orientation =
               (if 0 < i
                then arctan2 (idx1 p - idx1 (pth ! (i - 1))) (idx0 p - idx0 (pth ! (i - 1)))
                else 0)
         in waypoints_from n_off e_off pth (Suc i)
              (wps @ [\<lparr>north = idx0 p + n_off, east = idx1 p + e_off,
                       alt = idx2 p, heading = orientation\<rparr>]))
      else wps)"
  by pat_completeness auto
termination
  by (relation "measure (\<lambda>(n_off, e_off, pth, i, wps). length pth - i)") auto

declare waypoints_from.simps [simp del]

definition path_to_waypoints :: "real \<Rightarrow> real \<Rightarrow> vec3 list \<Rightarrow> waypoint list" where
  "path_to_waypoints n_off e_off pth = waypoints_from n_off e_off pth 0 []"

section \<open>Transitions\<close>

definition arming_transition :: "mission \<Rightarrow> outcome" where
  "arming_transition s = returns (s\<lparr>flight_state := ARMING\<rparr>) [Arm, TakeControl]"

definition takeoff_transition :: "mission \<Rightarrow> outcome" where
  "takeoff_transition s =
     returns (s\<lparr>flight_state := TAKEOFF\<rparr>) [Takeoff (ta (target_position s))]"

text \<open>
  \<open>waypoint_transition\<close> assigns the phase first and pops afterwards, so the
  \<open>IndexError\<close> of \<open>pop(0)\<close> on an empty list leaves the phase at \<open>WAYPOINT\<close>.
\<close>

definition waypoint_transition :: "mission \<Rightarrow> outcome" where
  "waypoint_transition s =
     (let s1 = s\<lparr>flight_state := WAYPOINT\<rparr>
      in case waypoints s1 of
           [] \<Rightarrow> raises s1 [] IndexError
         | w # ws \<Rightarrow>
             returns (s1\<lparr>target_position := target_of w, waypoints := ws\<rparr>)
               [CmdPosition (north w) (east w) (alt w) (heading w)])"

definition landing_transition :: "mission \<Rightarrow> outcome" where
  "landing_transition s = returns (s\<lparr>flight_state := LANDING\<rparr>) [Land]"

definition disarming_transition :: "mission \<Rightarrow> outcome" where
  "disarming_transition s =
     returns (s\<lparr>flight_state := DISARMING\<rparr>) [Disarm, ReleaseControl]"

definition manual_transition :: "mission \<Rightarrow> outcome" where
  "manual_transition s =
     returns (s\<lparr>flight_state := MANUAL, in_mission := False\<rparr>) [Stop]"

section \<open>Planning\<close>

text \<open>
  \<open>plan_path\<close> in the order of its statements: the phase and the target altitude are
  assigned before anything can raise; \<open>set_home_position\<close> follows the header; the
  offsets are stored after \<open>create_grid\<close>; the path, the waypoints and \<open>send_waypoints\<close>
  come last.
\<close>

definition plan_path :: "planning \<Rightarrow> mission \<Rightarrow> outcome" where
  "plan_path pl s =
     (let s1 = s\<lparr>flight_state := PLANNING\<rparr>;
          s2 = s1\<lparr>target_position := (target_position s1)\<lparr>ta := TARGET_ALTITUDE\<rparr>\<rparr>
      in case header pl of
           Inl e \<Rightarrow> raises s2 [] (PlanningFailed e)
         | Inr (lat, lon) \<Rightarrow>
             (let c1 = [SetHomePosition lon lat 0]
              in case obstacles pl of
                   Inl e \<Rightarrow> raises s2 c1 (PlanningFailed e)
                 | Inr (n_off, e_off) \<Rightarrow>
                     (let s3 = s2\<lparr>north_offset := Some n_off, east_offset := Some e_off\<rparr>
                      in case search pl of
                           Inl e \<Rightarrow> raises s3 c1 (PlanningFailed e)
                         | Inr pth \<Rightarrow>
                             (let wps = path_to_waypoints n_off e_off pth;
                                  s4 = s3\<lparr>path := Some pth, waypoints := wps\<rparr>
                              in returns s4 (c1 @ [SendWaypoints wps])))))"

section \<open>Callbacks\<close>

definition horizontal_error :: "telemetry \<Rightarrow> mission \<Rightarrow> real" where
  "horizontal_error t s =
     norm2 (tn (target_position s) - idx0 (local_position t))
           (te (target_position s) - idx1 (local_position t))"

definition vertical_error :: "telemetry \<Rightarrow> mission \<Rightarrow> real" where
  "vertical_error t s = \<bar>ta (target_position s) - (- idx2 (local_position t))\<bar>"

definition horizontal_speed :: "telemetry \<Rightarrow> real" where
  "horizontal_speed t = norm2 (idx0 (local_velocity t)) (idx1 (local_velocity t))"

definition local_position_callback :: "telemetry \<Rightarrow> mission \<Rightarrow> outcome" where
  "local_position_callback t s =
     (if flight_state s = TAKEOFF then
        (if -1.0 * idx2 (local_position t) > 0.95 * ta (target_position s)
         then waypoint_transition s
         else returns s [])
      else if flight_state s = WAYPOINT then
        (if horizontal_error t s < 3.0 \<and> vertical_error t s < 2.0 then
           (if length (waypoints s) > 0 then waypoint_transition s
            else if horizontal_speed t < 1.0 then landing_transition s
            else returns s [])
         else returns s [])
      else returns s [])"

definition velocity_callback :: "telemetry \<Rightarrow> mission \<Rightarrow> outcome" where
  "velocity_callback t s =
     (if flight_state s = LANDING then
        (if idx2 (global_position t) - idx2 (global_home t) < 0.1 then
           (if \<bar>idx2 (local_position t)\<bar> < 0.01 then disarming_transition s
            else returns s [])
         else returns s [])
      else returns s [])"

definition state_callback :: "telemetry \<Rightarrow> planning \<Rightarrow> mission \<Rightarrow> outcome" where
  "state_callback t pl s =
     (if in_mission s then
        (if flight_state s = MANUAL then arming_transition s
         else if flight_state s = ARMING then
           (if armed t then plan_path pl s else returns s [])
         else if flight_state s = PLANNING then takeoff_transition s
         else if flight_state s = DISARMING then
           (if truthy (py_invert (armed t) AND py_invert (guided t))
            then manual_transition s
            else returns s [])
         else returns s [])
      else returns s [])"

section \<open>Construction and event dispatch\<close>

definition init :: mission where
  "init = \<lparr>target_position = \<lparr>tn = 0.0, te = 0.0, ta = 0.0, th = None\<rparr>,
           waypoints = [],
           in_mission = True,
           north_offset = None,
           east_offset = None,
           path = None,
           flight_state = MANUAL\<rparr>"

text \<open>
  The three callbacks registered in \<open>__init__\<close>. An event is the message kind together
  with the attribute values the callback sees and, for the one status event that plans,
  the planning input.
\<close>

datatype MsgID = LOCAL_POSITION | LOCAL_VELOCITY | STATE

record event =
  msg_id :: MsgID
  telem :: telemetry
  plan_in :: planning

definition dispatch :: "event \<Rightarrow> mission \<Rightarrow> outcome" where
  "dispatch ev s =
     (case msg_id ev of
        LOCAL_POSITION \<Rightarrow> local_position_callback (telem ev) s
      | LOCAL_VELOCITY \<Rightarrow> velocity_callback (telem ev) s
      | STATE \<Rightarrow> state_callback (telem ev) (plan_in ev) s)"

text \<open>
  A run feeds the events one at a time; each callback works on the fields its predecessor
  left, also when that one ended in an exception. The result is the list of outcomes.
\<close>

fun run :: "mission \<Rightarrow> event list \<Rightarrow> outcome list" where
  "run s [] = []"
| "run s (ev # evs) = (let out = dispatch ev s in out # run (st out) evs)"

definition phases :: "mission \<Rightarrow> event list \<Rightarrow> States list" where
  "phases s evs = map (\<lambda>out. flight_state (st out)) (run s evs)"

definition commands :: "mission \<Rightarrow> event list \<Rightarrow> command list" where
  "commands s evs = concat (map cmds (run s evs))"

section \<open>Sample inputs\<close>

text \<open>Concrete telemetry, waypoints, planning inputs and missions for the worked instances.\<close>

definition sample_telemetry :: "vec3 \<Rightarrow> vec3 \<Rightarrow> bool \<Rightarrow> bool \<Rightarrow> telemetry" where
  "sample_telemetry pos vel a g =
     \<lparr>local_position = pos, local_velocity = vel,
      global_position = (-122.4, 37.8, - idx2 pos),
      global_home = (-122.4, 37.8, 0), armed = a, guided = g\<rparr>"

definition sample_waypoint :: waypoint where
  "sample_waypoint = \<lparr>north = 10, east = 0, alt = 5, heading = 0\<rparr>"

definition sample_planning :: "plan_error + vec3 list \<Rightarrow> planning" where
  "sample_planning r =
     \<lparr>header = Inr (37.8, -122.4), obstacles = Inr (-316, -445), search = r\<rparr>"

definition in_phase :: "States \<Rightarrow> waypoint list \<Rightarrow> mission" where
  "in_phase ph wps =
     \<lparr>target_position = \<lparr>tn = 0, te = 0, ta = 5, th = None\<rparr>,
      waypoints = wps,
      in_mission = True,
      north_offset = Some (-316),
      east_offset = Some (-445),
      path = None,
      flight_state = ph\<rparr>"

definition status_event :: "bool \<Rightarrow> bool \<Rightarrow> planning \<Rightarrow> event" where
  "status_event a g pl =
     \<lparr>msg_id = STATE, telem = sample_telemetry (0, 0, 0) (0, 0, 0) a g, plan_in = pl\<rparr>"

definition position_event :: "vec3 \<Rightarrow> vec3 \<Rightarrow> event" where
  "position_event pos vel =
     \<lparr>msg_id = LOCAL_POSITION, telem = sample_telemetry pos vel True True,
      plan_in = sample_planning (Inr [])\<rparr>"

text \<open>
  The waypoint that the loop of \<open>path_to_waypoints\<close> appends in round \<open>j\<close>, and the
  condition that some stage of the planning input raises.
\<close>

definition waypoint_at :: "real \<Rightarrow> real \<Rightarrow> vec3 list \<Rightarrow> nat \<Rightarrow> waypoint" where
  "waypoint_at n_off e_off pth j =
     \<lparr>north = idx0 (pth ! j) + n_off, east = idx1 (pth ! j) + e_off, alt = idx2 (pth ! j),
      heading = (if 0 < j
                 then arctan2 (idx1 (pth ! j) - idx1 (pth ! (j - 1)))
                        (idx0 (pth ! j) - idx0 (pth ! (j - 1)))
                 else 0)\<rparr>"

definition plan_fails :: "planning \<Rightarrow> bool" where
  "plan_fails pl = (isl (header pl) \<or> isl (obstacles pl) \<or> isl (search pl))"

section \<open>Auxiliary facts\<close>

lemma norm2_zero: "norm2 0 0 = 0"
  by (simp add: norm2_def)

lemma norm2_two: "norm2 2 0 = 2"
  by (simp add: norm2_def)

lemma py_int_of_int: "py_int (real_of_int n) = n"
  by (simp add: py_int_def)

lemma round_half_even_of_int: "round_half_even (of_int z) = z"
  by (simp add: round_half_even_def)

lemma bitlen_one: "bitlen 1 = 1"
  by (simp add: bitlen_alt_def)

lemma bitlen_two: "bitlen 2 = 2"
  by (simp add: bitlen_alt_def)

text \<open>An integer below \<open>2^53\<close> in magnitude is a float: rounding leaves it as it is.\<close>

lemma round64_of_int:
  assumes "\<bar>k\<bar> < 2 ^ 53"
  shows "round64 (of_int k) = of_int k"
proof (cases "k = 0")
  case True
  then show ?thesis by (simp add: round64_def)
next
  case False
  define m where "m = \<bar>k\<bar>"
  have m: "0 < m" "m < 2 ^ 53"
    using False assms by (simp_all add: m_def)
  have b: "bitlen m \<le> 53"
    using m(2) by (simp add: bitlen_le_iff_power)
  define j where "j = nat (53 - bitlen m)"
  have a: "\<bar>real_of_int k\<bar> = of_int m"
    by (simp add: m_def)
  have "1 \<le> (of_int m :: real)"
    using m(1) by simp
  then have e: "binade (of_int k) = bitlen m - 1"
    unfolding binade_def a by simp
  have u: "pow2 (bitlen m - 53) = 1 / 2 ^ j"
    using b by (cases "bitlen m = 53") (simp_all add: pow2_def j_def algebra_simps)
  have "real_of_int k * 2 ^ j = of_int (k * 2 ^ j)"
    by simp
  then have r: "round_half_even (real_of_int k * 2 ^ j) = k * 2 ^ j"
    by (simp only: round_half_even_of_int)
  show ?thesis
    using False by (simp add: round64_def e u r Let_def)
qed

text \<open>
  The floats written \<open>0.4\<close> and \<open>0.9\<close>, and the sums and differences with 1 that the
  conversion of the cell \<open>(1, 1, 0)\<close> computes with them.
\<close>

lemma float_0_4: "round64 0.4 = 3602879701896397 / 2 ^ 53"
  by (simp add: round64_def binade_def bitlen_two pow2_def round_half_even_def Let_def)

lemma float_0_9: "round64 0.9 = 8106479329266893 / 2 ^ 53"
  by (simp add: round64_def binade_def bitlen_one pow2_def round_half_even_def Let_def)

lemma float_add_1_0_4: "float_add 1 (3602879701896397 / 2 ^ 53) = 3152519739159347 / 2 ^ 51"
  by (simp add: float_add_def round64_def binade_def bitlen_one pow2_def
      round_half_even_def Let_def)

lemma float_add_1_0_9: "float_add 1 (8106479329266893 / 2 ^ 53) = 4278419646001971 / 2 ^ 51"
  by (simp add: float_add_def round64_def binade_def bitlen_one pow2_def
      round_half_even_def Let_def)

lemma float_sub_1_4_0_4:
  "float_sub (3152519739159347 / 2 ^ 51) (3602879701896397 / 2 ^ 53) =
     9007199254740991 / 2 ^ 53"
  by (simp add: float_sub_def round64_def binade_def bitlen_one pow2_def
      round_half_even_def Let_def)

lemma float_sub_1_9_0_9:
  "float_sub (4278419646001971 / 2 ^ 51) (8106479329266893 / 2 ^ 53) =
     9007199254740991 / 2 ^ 53"
  by (simp add: float_sub_def round64_def binade_def bitlen_one pow2_def
      round_half_even_def Let_def)

lemma inverted_conjunction_truthy: "truthy (py_invert a AND py_invert b)"
  by (cases a; cases b) (simp_all add: truthy_def py_invert_def)

lemma waypoints_from_map:
  "i \<le> length pth \<Longrightarrow>
   waypoints_from n_off e_off pth i wps =
     wps @ map (waypoint_at n_off e_off pth) [i..<length pth]"
proof (induction n_off e_off pth i wps rule: waypoints_from.induct)
  case (1 n_off e_off pth i wps)
  show ?case
  proof (cases "i < length pth")
    case True
    then have "[i..<length pth] = i # [Suc i..<length pth]"
      by (simp add: upt_conv_Cons)
    with True 1 show ?thesis
      by (subst waypoints_from.simps) (simp add: Let_def waypoint_at_def)
  next
    case False
    with 1 show ?thesis
      by (subst waypoints_from.simps) simp
  qed
qed

lemma path_to_waypoints_map:
  "path_to_waypoints n_off e_off pth = map (waypoint_at n_off e_off pth) [0..<length pth]"
  by (simp add: path_to_waypoints_def waypoints_from_map)

lemma dispatch_after_mission:
  "flight_state s = MANUAL \<Longrightarrow> \<not> in_mission s \<Longrightarrow> dispatch ev s = returns s []"
  by (cases "msg_id ev")
     (simp_all add: dispatch_def local_position_callback_def velocity_callback_def
        state_callback_def)

lemma run_after_mission:
  "flight_state s = MANUAL \<Longrightarrow> \<not> in_mission s \<Longrightarrow>
   run s evs = replicate (length evs) (returns s [])"
  by (induction evs) (simp_all add: dispatch_after_mission returns_def Let_def)

section \<open>The Waypoint phase\<close>

text \<open>
  Claim C1. A position event in the phase \<open>WAYPOINT\<close> whose horizontal error is below
  3.0 and whose vertical error is below 2.0: with a non-empty queue the head is popped,
  becomes the target and is commanded, and the phase stays \<open>WAYPOINT\<close>; with an empty
  queue and horizontal speed below 1.0 the controller commands \<open>land\<close> and enters
  \<open>LANDING\<close>; with an empty queue and horizontal speed not below 1.0 nothing changes and
  no command is issued.
\<close>

theorem waypoint_phase_position_reached:
  assumes "flight_state s = WAYPOINT"
      and "horizontal_error t s < 3.0"
      and "vertical_error t s < 2.0"
  shows "(\<forall>w ws. waypoints s = w # ws \<longrightarrow>
            local_position_callback t s =
              \<lparr>st = s\<lparr>target_position := target_of w, waypoints := ws\<rparr>,
               cmds = [CmdPosition (north w) (east w) (alt w) (heading w)],
               raised = None\<rparr>
            \<and> flight_state (st (local_position_callback t s)) = WAYPOINT)
       \<and> (waypoints s = [] \<and> horizontal_speed t < 1.0 \<longrightarrow>
            local_position_callback t s =
              \<lparr>st = s\<lparr>flight_state := LANDING\<rparr>, cmds = [Land], raised = None\<rparr>)
       \<and> (waypoints s = [] \<and> \<not> horizontal_speed t < 1.0 \<longrightarrow>
            local_position_callback t s = \<lparr>st = s, cmds = [], raised = None\<rparr>)"
  using assms
  by (simp add: local_position_callback_def waypoint_transition_def landing_transition_def
      returns_def)

theorem waypoint_phase_position_reached_witness:
  "flight_state (in_phase WAYPOINT [sample_waypoint]) = WAYPOINT
   \<and> horizontal_error (sample_telemetry (0, 0, -5) (2, 0, 0) True True)
        (in_phase WAYPOINT [sample_waypoint]) < 3.0
   \<and> vertical_error (sample_telemetry (0, 0, -5) (2, 0, 0) True True)
        (in_phase WAYPOINT [sample_waypoint]) < 2.0
   \<and> local_position_callback (sample_telemetry (0, 0, -5) (2, 0, 0) True True)
        (in_phase WAYPOINT [sample_waypoint]) =
       \<lparr>st = (in_phase WAYPOINT [])\<lparr>target_position := target_of sample_waypoint\<rparr>,
        cmds = [CmdPosition 10 0 5 0], raised = None\<rparr>
   \<and> horizontal_speed (sample_telemetry (0, 0, -5) (0, 0, 0) True True) < 1.0
   \<and> local_position_callback (sample_telemetry (0, 0, -5) (0, 0, 0) True True)
        (in_phase WAYPOINT []) =
       \<lparr>st = in_phase LANDING [], cmds = [Land], raised = None\<rparr>
   \<and> \<not> horizontal_speed (sample_telemetry (0, 0, -5) (2, 0, 0) True True) < 1.0
   \<and> local_position_callback (sample_telemetry (0, 0, -5) (2, 0, 0) True True)
        (in_phase WAYPOINT []) =
       \<lparr>st = in_phase WAYPOINT [], cmds = [], raised = None\<rparr>"
proof -
  let ?fast = "sample_telemetry (0, 0, -5) (2, 0, 0) True True"
  let ?slow = "sample_telemetry (0, 0, -5) (0, 0, 0) True True"
  have h: "horizontal_error ?fast (in_phase WAYPOINT wps) < 3.0"
          "vertical_error ?fast (in_phase WAYPOINT wps) < 2.0"
          "horizontal_error ?slow (in_phase WAYPOINT wps) < 3.0"
          "vertical_error ?slow (in_phase WAYPOINT wps) < 2.0" for wps
    by (simp_all add: horizontal_error_def vertical_error_def sample_telemetry_def
        in_phase_def norm2_zero)
  have p: "flight_state (in_phase WAYPOINT wps) = WAYPOINT" for wps
    by (simp add: in_phase_def)
  have v: "\<not> horizontal_speed ?fast < 1.0" "horizontal_speed ?slow < 1.0"
    by (simp_all add: horizontal_speed_def sample_telemetry_def norm2_zero norm2_two)
  show ?thesis
    using waypoint_phase_position_reached [OF p h(1) h(2), of "[sample_waypoint]"]
      waypoint_phase_position_reached [OF p h(3) h(4), of "[]"]
      waypoint_phase_position_reached [OF p h(1) h(2), of "[]"] v h p
    by (simp add: in_phase_def sample_waypoint_def)
qed

section \<open>The Disarming phase\<close>

text \<open>
  Claim C2. The guard of the phase \<open>DISARMING\<close> is \<open>~self.armed & ~self.guided\<close>. On
  Python booleans the complement of \<open>True\<close> is \<open>-2\<close> and of \<open>False\<close> is \<open>-1\<close>, and the
  conjunction of two such integers is never zero. At a status event that still reports
  armed and guided the controller therefore runs \<open>manual_transition\<close>: it calls \<open>stop\<close>,
  clears the mission flag and enters \<open>MANUAL\<close>, where the claim keeps it in \<open>DISARMING\<close>
  with no action.
\<close>

theorem disarming_still_armed_and_guided:
  "dispatch (status_event True True pl) (in_phase DISARMING []) =
     \<lparr>st = (in_phase MANUAL [])\<lparr>in_mission := False\<rparr>, cmds = [Stop], raised = None\<rparr>"
  by (simp add: dispatch_def status_event_def state_callback_def in_phase_def
      sample_telemetry_def truthy_def py_invert_def manual_transition_def returns_def)

section \<open>Grid and local coordinates\<close>

text \<open>
  Claim C4, as stated, at fractional offsets. \<open>grid_to_local\<close> adds the offset and
  \<open>local_to_grid\<close> subtracts it again, both in binary64, and \<open>int\<close> truncates. With the
  offsets \<open>0.4\<close> and \<open>0.9\<close> and the cell \<open>(1, 1, 0)\<close>, the sum \<open>1 + 0.4\<close> rounds down, the
  difference is \<open>0.9999999999999999\<close>, and the cell that comes back is \<open>(0, 0, 0)\<close>.
\<close>

theorem round_trip_fails_fractional_offsets:
  "local_to_grid (round64 0.4) (round64 0.9)
     (grid_to_local (round64 0.4) (round64 0.9) (cell (1, 1, 0))) = (0, 0, 0)
   \<and> local_to_grid (round64 0.4) (round64 0.9)
       (grid_to_local (round64 0.4) (round64 0.9) (cell (1, 1, 0))) \<noteq> (1, 1, 0)"
proof -
  have trip: "local_to_grid x y (grid_to_local x y (cell (1, 1, 0))) =
      (py_int (float_sub (float_add 1 x) x), py_int (float_sub (float_add 1 y) y), 0)"
    for x y
    by (simp add: local_to_grid_def grid_to_local_def cell_def py_int_def)
  have north: "float_sub (float_add 1 (round64 0.4)) (round64 0.4) =
      9007199254740991 / 2 ^ 53"
    by (simp only: float_0_4 float_add_1_0_4 float_sub_1_4_0_4)
  have east: "float_sub (float_add 1 (round64 0.9)) (round64 0.9) =
      9007199254740991 / 2 ^ 53"
    by (simp only: float_0_9 float_add_1_0_9 float_sub_1_9_0_9)
  have trunc: "py_int (9007199254740991 / 2 ^ 53) = 0"
    by (simp add: py_int_def)
  show ?thesis
    by (simp only: trip north east trunc) simp
qed

text \<open>
  Claim C4, amended. With integer-valued offsets, for every integer grid cell whose north
  and east indices, alone and with the offset added, are below \<open>2^53\<close> in magnitude,
  \<open>local_to_grid (grid_to_local c) = c\<close>: every sum and difference is then an integer
  that binary64 holds exactly.
\<close>

theorem local_to_grid_grid_to_local:
  assumes "\<bar>n\<bar> < 2 ^ 53" and "\<bar>e\<bar> < 2 ^ 53"
      and "\<bar>n + n_off\<bar> < 2 ^ 53" and "\<bar>e + e_off\<bar> < 2 ^ 53"
  shows "local_to_grid (of_int n_off) (of_int e_off)
           (grid_to_local (of_int n_off) (of_int e_off) (cell (n, e, a))) = (n, e, a)"
proof -
  have "float_add (of_int n) (of_int n_off) = of_int (n + n_off)"
    using round64_of_int [OF assms(3)] by (simp add: float_add_def)
  moreover have "float_sub (of_int (n + n_off)) (of_int n_off) = of_int n"
    using round64_of_int [OF assms(1)] by (simp add: float_sub_def)
  moreover have "float_add (of_int e) (of_int e_off) = of_int (e + e_off)"
    using round64_of_int [OF assms(4)] by (simp add: float_add_def)
  moreover have "float_sub (of_int (e + e_off)) (of_int e_off) = of_int e"
    using round64_of_int [OF assms(2)] by (simp add: float_sub_def)
  ultimately show ?thesis
    by (simp add: local_to_grid_def grid_to_local_def cell_def py_int_of_int
        del: of_int_add)
qed

theorem local_to_grid_grid_to_local_witness:
  "\<bar>316 :: int\<bar> < 2 ^ 53 \<and> \<bar>445 :: int\<bar> < 2 ^ 53
   \<and> \<bar>316 + (-316 :: int)\<bar> < 2 ^ 53 \<and> \<bar>445 + (-445 :: int)\<bar> < 2 ^ 53
   \<and> local_to_grid (of_int (-316)) (of_int (-445))
        (grid_to_local (of_int (-316)) (of_int (-445)) (cell (316, 445, 5))) = (316, 445, 5)"
proof -
  have h: "\<bar>316 :: int\<bar> < 2 ^ 53" "\<bar>445 :: int\<bar> < 2 ^ 53"
    "\<bar>316 + (-316 :: int)\<bar> < 2 ^ 53" "\<bar>445 + (-445 :: int)\<bar> < 2 ^ 53"
    by simp_all
  from local_to_grid_grid_to_local [OF h, of 5] h show ?thesis
    by simp
qed

section \<open>Mission start\<close>

text \<open>
  Claim C10. The constructor sets the mission flag and the phase \<open>MANUAL\<close>, so the first
  status event, with any payload, calls \<open>arm\<close> and then \<open>take_control\<close> and sets the
  phase to \<open>ARMING\<close>; no start signal is involved.
\<close>

theorem first_status_event_arms:
  "in_mission init \<and> flight_state init = MANUAL
   \<and> state_callback t pl init =
       \<lparr>st = init\<lparr>flight_state := ARMING\<rparr>, cmds = [Arm, TakeControl], raised = None\<rparr>"
  by (simp add: init_def state_callback_def arming_transition_def returns_def)

section \<open>The Takeoff phase\<close>

text \<open>
  Claim C5, as stated, at its boundary. The guard of the phase \<open>TAKEOFF\<close> is the strict
  comparison \<open>-1.0 * local_position[2] > 0.95 * target_position[2]\<close>. With target
  altitude 5 and current altitude 4.75 the altitude is at least 0.95 times the target, the
  queue holds a waypoint, and the position event changes nothing.
\<close>

theorem takeoff_boundary_no_transition:
  "flight_state (in_phase TAKEOFF [sample_waypoint]) = TAKEOFF
   \<and> - idx2 (local_position (sample_telemetry (0, 0, -4.75) (0, 0, 0) True True))
        \<ge> 0.95 * ta (target_position (in_phase TAKEOFF [sample_waypoint]))
   \<and> local_position_callback (sample_telemetry (0, 0, -4.75) (0, 0, 0) True True)
        (in_phase TAKEOFF [sample_waypoint]) =
       \<lparr>st = in_phase TAKEOFF [sample_waypoint], cmds = [], raised = None\<rparr>
   \<and> flight_state (st (local_position_callback
        (sample_telemetry (0, 0, -4.75) (0, 0, 0) True True)
        (in_phase TAKEOFF [sample_waypoint]))) \<noteq> WAYPOINT"
  by (simp add: local_position_callback_def in_phase_def sample_telemetry_def returns_def)

text \<open>
  Claim C5, amended. A position event in the phase \<open>TAKEOFF\<close>: when the current altitude
  is strictly above 0.95 times the target altitude and the queue is non-empty, the head is
  popped, becomes the target and is commanded, and the phase becomes \<open>WAYPOINT\<close>; when
  the altitude is at most 0.95 times the target altitude, nothing changes and no command
  is issued.
\<close>

theorem takeoff_phase_altitude_reached:
  assumes "flight_state s = TAKEOFF"
  shows "(\<forall>w ws. - idx2 (local_position t) > 0.95 * ta (target_position s)
              \<and> waypoints s = w # ws \<longrightarrow>
            local_position_callback t s =
              \<lparr>st = s\<lparr>flight_state := WAYPOINT, target_position := target_of w,
                        waypoints := ws\<rparr>,
               cmds = [CmdPosition (north w) (east w) (alt w) (heading w)],
               raised = None\<rparr>)
       \<and> (- idx2 (local_position t) \<le> 0.95 * ta (target_position s) \<longrightarrow>
            local_position_callback t s = \<lparr>st = s, cmds = [], raised = None\<rparr>)"
  using assms
  by (auto simp add: local_position_callback_def waypoint_transition_def returns_def)

theorem takeoff_phase_altitude_reached_witness:
  "flight_state (in_phase TAKEOFF [sample_waypoint]) = TAKEOFF
   \<and> - idx2 (local_position (sample_telemetry (0, 0, -4.8) (0, 0, 0) True True))
        > 0.95 * ta (target_position (in_phase TAKEOFF [sample_waypoint]))
   \<and> local_position_callback (sample_telemetry (0, 0, -4.8) (0, 0, 0) True True)
        (in_phase TAKEOFF [sample_waypoint]) =
       \<lparr>st = (in_phase WAYPOINT [])\<lparr>target_position := target_of sample_waypoint\<rparr>,
        cmds = [CmdPosition 10 0 5 0], raised = None\<rparr>
   \<and> - idx2 (local_position (sample_telemetry (0, 0, -4.75) (0, 0, 0) True True))
        \<le> 0.95 * ta (target_position (in_phase TAKEOFF [sample_waypoint]))
   \<and> local_position_callback (sample_telemetry (0, 0, -4.75) (0, 0, 0) True True)
        (in_phase TAKEOFF [sample_waypoint]) =
       \<lparr>st = in_phase TAKEOFF [sample_waypoint], cmds = [], raised = None\<rparr>"
proof -
  have p: "flight_state (in_phase TAKEOFF [sample_waypoint]) = TAKEOFF"
    by (simp add: in_phase_def)
  show ?thesis
    using takeoff_phase_altitude_reached
        [OF p, of "sample_telemetry (0, 0, -4.8) (0, 0, 0) True True"]
      takeoff_phase_altitude_reached
        [OF p, of "sample_telemetry (0, 0, -4.75) (0, 0, 0) True True"]
    by (simp add: in_phase_def sample_telemetry_def sample_waypoint_def)
qed

section \<open>Failure of the planning pipeline\<close>

text \<open>
  Claim C3, as stated, at a failing search. \<open>plan_path\<close> assigns the phase \<open>PLANNING\<close>
  before it calls the pipeline and has no handler, so when \<open>a_star\<close> raises, the exception
  leaves the callback with the phase \<open>PLANNING\<close> and the mission flag still set: the
  controller has not returned to \<open>MANUAL\<close>.
\<close>

theorem planning_failure_stays_in_planning:
  "in_mission (in_phase ARMING []) \<and> flight_state (in_phase ARMING []) = ARMING
   \<and> raised (dispatch (status_event True True (sample_planning (Inl PathNotFound)))
        (in_phase ARMING [])) = Some (PlanningFailed PathNotFound)
   \<and> flight_state (st (dispatch (status_event True True (sample_planning (Inl PathNotFound)))
        (in_phase ARMING []))) = PLANNING
   \<and> flight_state (st (dispatch (status_event True True (sample_planning (Inl PathNotFound)))
        (in_phase ARMING []))) \<noteq> MANUAL
   \<and> in_mission (st (dispatch (status_event True True (sample_planning (Inl PathNotFound)))
        (in_phase ARMING [])))"
  by (simp add: dispatch_def status_event_def state_callback_def sample_telemetry_def
      sample_planning_def plan_path_def in_phase_def raises_def)

text \<open>
  Claim C3, amended. When a stage of the planning pipeline raises during the status event
  that plans (mission active, phase \<open>ARMING\<close>, vehicle armed), the exception leaves the
  callback; at the end of that callback the phase is \<open>PLANNING\<close>, the mission flag is
  still set, the waypoint queue is unchanged, and no waypoints have been dispatched: the
  only command that can have been issued is \<open>set_home_position\<close>, after a well-formed
  header. The failure is not an abort: a status event processed next, whatever its
  payload, commands takeoff to the target altitude 5 and enters \<open>TAKEOFF\<close>, as after a
  successful plan.
\<close>

theorem planning_failure_outcome:
  assumes "in_mission s" and "flight_state s = ARMING" and "armed t" and "plan_fails pl"
  shows "flight_state (st (state_callback t pl s)) = PLANNING
       \<and> in_mission (st (state_callback t pl s))
       \<and> waypoints (st (state_callback t pl s)) = waypoints s
       \<and> (\<exists>e. raised (state_callback t pl s) = Some (PlanningFailed e))
       \<and> cmds (state_callback t pl s) =
           (case header pl of
              Inl e \<Rightarrow> []
            | Inr (lat, lon) \<Rightarrow> [SetHomePosition lon lat 0])
       \<and> state_callback t' pl' (st (state_callback t pl s)) =
           \<lparr>st = (st (state_callback t pl s))\<lparr>flight_state := TAKEOFF\<rparr>,
            cmds = [Takeoff 5], raised = None\<rparr>"
proof -
  let ?out = "state_callback t pl s"
  have out: "?out = plan_path pl s"
    using assms by (simp add: state_callback_def)
  have failed: "flight_state (st ?out) = PLANNING \<and> in_mission (st ?out)
      \<and> waypoints (st ?out) = waypoints s
      \<and> (\<exists>e. raised ?out = Some (PlanningFailed e))
      \<and> cmds ?out =
          (case header pl of Inl e \<Rightarrow> [] | Inr (lat, lon) \<Rightarrow> [SetHomePosition lon lat 0])
      \<and> ta (target_position (st ?out)) = 5"
    unfolding out using assms(1,4)
    by (auto simp add: plan_path_def plan_fails_def raises_def returns_def Let_def
        TARGET_ALTITUDE_def split: sum.splits prod.splits)
  then have "state_callback t' pl' (st ?out) =
      \<lparr>st = (st ?out)\<lparr>flight_state := TAKEOFF\<rparr>, cmds = [Takeoff 5], raised = None\<rparr>"
    by (simp add: state_callback_def takeoff_transition_def returns_def)
  with failed show ?thesis
    by simp
qed

theorem planning_failure_outcome_witness:
  "in_mission (in_phase ARMING [])
   \<and> flight_state (in_phase ARMING []) = ARMING
   \<and> armed (sample_telemetry (0, 0, 0) (0, 0, 0) True False)
   \<and> plan_fails (sample_planning (Inl PathNotFound))
   \<and> flight_state (st (state_callback (sample_telemetry (0, 0, 0) (0, 0, 0) True False)
        (sample_planning (Inl PathNotFound)) (in_phase ARMING []))) = PLANNING
   \<and> in_mission (st (state_callback (sample_telemetry (0, 0, 0) (0, 0, 0) True False)
        (sample_planning (Inl PathNotFound)) (in_phase ARMING [])))
   \<and> waypoints (st (state_callback (sample_telemetry (0, 0, 0) (0, 0, 0) True False)
        (sample_planning (Inl PathNotFound)) (in_phase ARMING []))) = []
   \<and> cmds (state_callback (sample_telemetry (0, 0, 0) (0, 0, 0) True False)
        (sample_planning (Inl PathNotFound)) (in_phase ARMING [])) =
       [SetHomePosition (-122.4) 37.8 0]
   \<and> flight_state (st (state_callback (sample_telemetry (0, 0, 0) (0, 0, 0) True True)
        (sample_planning (Inr []))
        (st (state_callback (sample_telemetry (0, 0, 0) (0, 0, 0) True False)
          (sample_planning (Inl PathNotFound)) (in_phase ARMING []))))) = TAKEOFF
   \<and> cmds (state_callback (sample_telemetry (0, 0, 0) (0, 0, 0) True True)
        (sample_planning (Inr []))
        (st (state_callback (sample_telemetry (0, 0, 0) (0, 0, 0) True False)
          (sample_planning (Inl PathNotFound)) (in_phase ARMING [])))) = [Takeoff 5]"
proof -
  let ?s = "in_phase ARMING []"
  let ?t = "sample_telemetry (0, 0, 0) (0, 0, 0) True False"
  let ?pl = "sample_planning (Inl PathNotFound)"
  have a: "in_mission ?s" "flight_state ?s = ARMING"
    by (simp_all add: in_phase_def)
  have b: "armed ?t"
    by (simp add: sample_telemetry_def)
  have c: "plan_fails ?pl"
    by (simp add: plan_fails_def sample_planning_def)
  have d: "header ?pl = Inr (37.8, -122.4)" "waypoints ?s = []"
    by (simp_all add: sample_planning_def in_phase_def)
  from planning_failure_outcome [OF a b c, of "sample_telemetry (0, 0, 0) (0, 0, 0) True True"
      "sample_planning (Inr [])"] a b c d
  show ?thesis
    by simp
qed

section \<open>Waypoint generation from a path\<close>

text \<open>
  Claim C6. For a non-empty path the waypoint list has one waypoint per path point; the
  first heading is 0; the heading of every later waypoint \<open>i\<close> is \<open>arctan2\<close> of the east
  displacement and the north displacement between path point \<open>i\<close> and path point
  \<open>i - 1\<close>; north and east of each waypoint are the indices of the path point plus the
  offsets, and its altitude is that of the path point.
\<close>

theorem path_to_waypoints_headings:
  assumes "pth \<noteq> []"
  shows "length (path_to_waypoints n_off e_off pth) = length pth
       \<and> heading (path_to_waypoints n_off e_off pth ! 0) = 0
       \<and> (\<forall>i. 0 < i \<and> i < length pth \<longrightarrow>
             heading (path_to_waypoints n_off e_off pth ! i) =
               arctan2 (idx1 (pth ! i) - idx1 (pth ! (i - 1)))
                       (idx0 (pth ! i) - idx0 (pth ! (i - 1))))
       \<and> (\<forall>i. i < length pth \<longrightarrow>
             north (path_to_waypoints n_off e_off pth ! i) = idx0 (pth ! i) + n_off
           \<and> east (path_to_waypoints n_off e_off pth ! i) = idx1 (pth ! i) + e_off
           \<and> alt (path_to_waypoints n_off e_off pth ! i) = idx2 (pth ! i))"
  using assms by (simp add: path_to_waypoints_map waypoint_at_def)

theorem path_to_waypoints_headings_witness:
  "[(316, 445, 5), (317, 445, 5), (317, 446, 5 :: real)] \<noteq> []
   \<and> length (path_to_waypoints (-316) (-445)
        [(316, 445, 5), (317, 445, 5), (317, 446, 5)]) = 3
   \<and> heading (path_to_waypoints (-316) (-445)
        [(316, 445, 5), (317, 445, 5), (317, 446, 5)] ! 0) = 0
   \<and> heading (path_to_waypoints (-316) (-445)
        [(316, 445, 5), (317, 445, 5), (317, 446, 5)] ! 2) = arctan2 1 0
   \<and> north (path_to_waypoints (-316) (-445)
        [(316, 445, 5), (317, 445, 5), (317, 446, 5)] ! 2) = 1
   \<and> east (path_to_waypoints (-316) (-445)
        [(316, 445, 5), (317, 445, 5), (317, 446, 5)] ! 2) = 1
   \<and> alt (path_to_waypoints (-316) (-445)
        [(316, 445, 5), (317, 445, 5), (317, 446, 5)] ! 2) = 5"
proof -
  let ?p = "[(316, 445, 5), (317, 445, 5), (317, 446, 5 :: real)]"
  have ne: "?p \<noteq> []" by simp
  note t = path_to_waypoints_headings [OF ne, of "-316" "-445"]
  note len = t [THEN conjunct1]
  note h0 = t [THEN conjunct2, THEN conjunct1]
  note hi = t [THEN conjunct2, THEN conjunct2, THEN conjunct1, THEN spec [of _ 2]]
  note ci = t [THEN conjunct2, THEN conjunct2, THEN conjunct2, THEN spec [of _ 2]]
  from len h0 hi ci show ?thesis by simp
qed

section \<open>Runs of the controller\<close>

text \<open>
  Claim C8. A run from construction that reaches the pop of an empty queue: the first
  status event arms, the second plans and the planning input yields the empty path, so
  the waypoint list is empty, the third commands takeoff, and the position event at
  altitude 5 passes the guard of \<open>TAKEOFF\<close>. \<open>waypoint_transition\<close> then sets the phase
  \<open>WAYPOINT\<close> and \<open>pop(0)\<close> raises \<open>IndexError\<close>; no position command is issued.
\<close>

theorem empty_queue_pop_reachable:
  "map (\<lambda>out. (flight_state (st out), waypoints (st out), cmds out, raised out))
     (run init
       [status_event False False (sample_planning (Inr [])),
        status_event True True (sample_planning (Inr [])),
        status_event True True (sample_planning (Inr [])),
        position_event (0, 0, -5) (0, 0, 0)]) =
   [(ARMING, [], [Arm, TakeControl], None),
    (PLANNING, [], [SetHomePosition (-122.4) 37.8 0, SendWaypoints []], None),
    (TAKEOFF, [], [Takeoff 5], None),
    (WAYPOINT, [], [], Some IndexError)]"
  by (simp add: init_def status_event_def position_event_def sample_planning_def
      sample_telemetry_def dispatch_def state_callback_def local_position_callback_def
      arming_transition_def plan_path_def takeoff_transition_def waypoint_transition_def
      path_to_waypoints_map TARGET_ALTITUDE_def returns_def raises_def)

text \<open>
  Claim C9. After \<open>manual_transition\<close> has run, from whatever state, every further event
  of any kind and payload leaves the mission fields as they are, with the phase \<open>MANUAL\<close>,
  issues no command and raises nothing.
\<close>

theorem mission_is_one_shot:
  "run (st (manual_transition s)) evs =
     replicate (length evs) \<lparr>st = st (manual_transition s), cmds = [], raised = None\<rparr>
   \<and> phases (st (manual_transition s)) evs = replicate (length evs) MANUAL
   \<and> commands (st (manual_transition s)) evs = []"
proof -
  let ?m = "st (manual_transition s)"
  have m: "flight_state ?m = MANUAL" "\<not> in_mission ?m"
    by (simp_all add: manual_transition_def returns_def)
  have r: "run ?m evs = replicate (length evs) (returns ?m [])"
    using m by (rule run_after_mission)
  have "phases ?m evs = replicate (length evs) MANUAL"
    by (simp add: phases_def r returns_def m)
  moreover have "commands ?m evs = []"
    by (simp add: commands_def r returns_def)
  ultimately show ?thesis
    using r by (simp add: returns_def)
qed

end
